theory Spec2Isabelle
  imports Complex_Main "HOL-Library.Product_Lexorder" "HOL-Library.Log_Nat"
begin

section \<open>Strings\<close>

text \<open>
  Python \<^verbatim>\<open>str\<close> values and SQL \<^verbatim>\<open>VARCHAR\<close> values are modelled as \<^typ>\<open>string\<close>, restricted
  to ASCII: \<^verbatim>\<open>str.lower()\<close> and SQL \<^verbatim>\<open>LOWER\<close> map \<^verbatim>\<open>A\<close>..\<^verbatim>\<open>Z\<close> (codes 65..90) to
  \<^verbatim>\<open>a\<close>..\<^verbatim>\<open>z\<close> by setting bit 5 and leave every other character alone.
\<close>

definition lower_char :: "char \<Rightarrow> char" where
  "lower_char c =
     (let n = (of_char c :: nat) in
      if 65 \<le> n \<and> n \<le> 90
      then (case c of Char b0 b1 b2 b3 b4 b5 b6 b7 \<Rightarrow> Char b0 b1 b2 b3 b4 True b6 b7)
      else c)"

definition str_lower :: "string \<Rightarrow> string" where
  "str_lower s = map lower_char s"

text \<open>\<^verbatim>\<open>needle in hay\<close> on Python strings: \<open>needle\<close> occurs as a contiguous block.\<close>

fun starts_with :: "string \<Rightarrow> string \<Rightarrow> bool" where
  "starts_with [] s = True"
| "starts_with (p # ps) [] = False"
| "starts_with (p # ps) (c # cs) = (p = c \<and> starts_with ps cs)"

fun str_contains :: "string \<Rightarrow> string \<Rightarrow> bool" where
  "str_contains needle [] = (needle = [])"
| "str_contains needle (c # cs) = (starts_with needle (c # cs) \<or> str_contains needle cs)"

text \<open>
  SQL \<^verbatim>\<open>text LIKE pattern\<close>: in the pattern \<^verbatim>\<open>%\<close> stands for any run of characters
  (the empty one too), \<^verbatim>\<open>_\<close> for exactly one character, every other character for
  itself. The comparison is case sensitive and there is no escape character.
\<close>

fun like_match :: "string \<Rightarrow> string \<Rightarrow> bool" where
  "like_match [] s = (s = [])"
| "like_match (p # ps) [] = (p = CHR ''%'' \<and> like_match ps [])"
| "like_match (p # ps) (c # cs) =
     (if p = CHR ''%'' then like_match ps (c # cs) \<or> like_match (p # ps) cs
      else (p = CHR ''_'' \<or> p = c) \<and> like_match ps cs)"

definition wildcard_free :: "string \<Rightarrow> bool" where
  "wildcard_free s = list_all (\<lambda>c. c \<noteq> CHR ''%'' \<and> c \<noteq> CHR ''_'') s"

section \<open>The listings store and its query (db\_search.py)\<close>

text \<open>
  A row of the table \<^verbatim>\<open>car_listings\<close>. Only the four columns that the query reads in its
  \<^verbatim>\<open>WHERE\<close> and \<^verbatim>\<open>ORDER BY\<close> clauses are typed; \<open>listing_url\<close> stands for the sixteen
  columns that are selected and returned untouched. The table's declaration is not part
  of the sources, so every column is nullable: \<open>None\<close> is SQL \<^verbatim>\<open>NULL\<close>. The store is the list
  of its rows.
\<close>

record listing =
  make_name :: "string option"
  price_sgd :: "int option"
  year :: "int option"
  mileage_km :: "int option"
  listing_url :: string

text \<open>
  The \<^verbatim>\<open>filters\<close> dictionary. Every key is read with \<^verbatim>\<open>.get\<close>, which gives \<^verbatim>\<open>None\<close> for a
  missing key and for a key bound to \<^verbatim>\<open>None\<close> alike, so a field is \<open>None\<close> in both cases.
\<close>

record car_filters =
  brand :: "string option"
  min_price :: "int option"
  max_price :: "int option"
  min_year :: "int option"
  max_year :: "int option"
  min_mileage :: "int option"
  max_mileage :: "int option"
  max_owners :: "int option"
  engine_cc_category :: "int option"
  body_type_code :: "int option"
  min_depreciation :: "int option"
  max_depreciation :: "int option"

text \<open>The dictionary \<^verbatim>\<open>{}\<close>.\<close>

definition empty_filters :: car_filters where
  "empty_filters =
     \<lparr>brand = None, min_price = None, max_price = None, min_year = None, max_year = None,
      min_mileage = None, max_mileage = None, max_owners = None, engine_cc_category = None,
      body_type_code = None, min_depreciation = None, max_depreciation = None\<rparr>"

text \<open>\<^verbatim>\<open>(filters or {})\<close>: the argument may be \<^verbatim>\<open>None\<close>.\<close>

definition filters_or_empty :: "car_filters option \<Rightarrow> car_filters" where
  "filters_or_empty fo = (case fo of None \<Rightarrow> empty_filters | Some f \<Rightarrow> f)"

text \<open>
  The lists \<^verbatim>\<open>where\<close> and \<^verbatim>\<open>params\<close> grow together, one clause with its one parameter at a
  time, so they are kept as one list of pairs.
\<close>

datatype clause = LowerMakeLike | PriceGe | PriceLe | YearGe | YearLe | MileageGe | MileageLe

datatype sql_param = PText string | PInt int

definition where_and_params :: "car_filters \<Rightarrow> (clause \<times> sql_param) list" where
  "where_and_params f =
     (case brand f of
        None \<Rightarrow> []
      | Some b \<Rightarrow> if b \<noteq> [] then [(LowerMakeLike, PText (''%'' @ str_lower b @ ''%''))] else [])
     @ (case min_price f of None \<Rightarrow> [] | Some v \<Rightarrow> [(PriceGe, PInt v)])
     @ (case max_price f of None \<Rightarrow> [] | Some v \<Rightarrow> [(PriceLe, PInt v)])
     @ (case min_year f of None \<Rightarrow> [] | Some v \<Rightarrow> [(YearGe, PInt v)])
     @ (case max_year f of None \<Rightarrow> [] | Some v \<Rightarrow> [(YearLe, PInt v)])
     @ (case min_mileage f of None \<Rightarrow> [] | Some v \<Rightarrow> [(MileageGe, PInt v)])
     @ (case max_mileage f of None \<Rightarrow> [] | Some v \<Rightarrow> [(MileageLe, PInt v)])"

text \<open>
  One clause on one row. A comparison with \<^verbatim>\<open>NULL\<close> is not true, so the row is left out.
\<close>

fun clause_holds :: "listing \<Rightarrow> clause \<times> sql_param \<Rightarrow> bool" where
  "clause_holds r (LowerMakeLike, PText pat) =
     (case make_name r of None \<Rightarrow> False | Some m \<Rightarrow> like_match pat (str_lower m))"
| "clause_holds r (PriceGe, PInt v) = (case price_sgd r of None \<Rightarrow> False | Some p \<Rightarrow> v \<le> p)"
| "clause_holds r (PriceLe, PInt v) = (case price_sgd r of None \<Rightarrow> False | Some p \<Rightarrow> p \<le> v)"
| "clause_holds r (YearGe, PInt v) = (case year r of None \<Rightarrow> False | Some y \<Rightarrow> v \<le> y)"
| "clause_holds r (YearLe, PInt v) = (case year r of None \<Rightarrow> False | Some y \<Rightarrow> y \<le> v)"
| "clause_holds r (MileageGe, PInt v) = (case mileage_km r of None \<Rightarrow> False | Some k \<Rightarrow> v \<le> k)"
| "clause_holds r (MileageLe, PInt v) = (case mileage_km r of None \<Rightarrow> False | Some k \<Rightarrow> k \<le> v)"
| "clause_holds r (LowerMakeLike, PInt v) = False"
| "clause_holds r (PriceGe, PText t) = False"
| "clause_holds r (PriceLe, PText t) = False"
| "clause_holds r (YearGe, PText t) = False"
| "clause_holds r (YearLe, PText t) = False"
| "clause_holds r (MileageGe, PText t) = False"
| "clause_holds r (MileageLe, PText t) = False"

text \<open>
  \<^verbatim>\<open>ORDER BY price_sgd ASC\<close>: ascending, rows with a \<^verbatim>\<open>NULL\<close> price last (the engine's
  default). Rows with equal prices keep their order in the store.
\<close>

definition price_key :: "listing \<Rightarrow> nat \<times> int" where
  "price_key r = (case price_sgd r of None \<Rightarrow> (1, 0) | Some p \<Rightarrow> (0, p))"

text \<open>
  The statement \<^verbatim>\<open>SELECT ... FROM car_listings [WHERE c1 AND ... AND cn] ORDER BY price_sgd ASC
  LIMIT limit\<close> on a store; \<open>limit\<close> is a natural number.
\<close>

definition execute :: "listing list \<Rightarrow> (clause \<times> sql_param) list \<Rightarrow> nat \<Rightarrow> listing list" where
  "execute store wp limit =
     take limit (sort_key price_key (filter (\<lambda>r. list_all (clause_holds r) wp) store))"

definition search_cars_in_duckdb :: "listing list \<Rightarrow> car_filters option \<Rightarrow> nat \<Rightarrow> listing list" where
  "search_cars_in_duckdb store filters limit =
     execute store (where_and_params (filters_or_empty filters)) limit"

text \<open>The dictionaries \<^verbatim>\<open>relaxed\<close> and \<^verbatim>\<open>super_relaxed\<close> of \<^verbatim>\<open>search_with_fallback\<close>.\<close>

definition relaxed :: "car_filters option \<Rightarrow> car_filters" where
  "relaxed filters =
     (filters_or_empty filters)
       \<lparr>min_year := None, max_year := None, min_mileage := None, max_mileage := None\<rparr>"

definition super_relaxed :: "car_filters \<Rightarrow> car_filters" where
  "super_relaxed rel =
     empty_filters\<lparr>brand := brand rel, min_price := min_price rel, max_price := max_price rel\<rparr>"

definition search_with_fallback :: "listing list \<Rightarrow> car_filters option \<Rightarrow> nat \<Rightarrow> listing list" where
  "search_with_fallback store filters limit =
     (let df = search_cars_in_duckdb store filters limit in
      if df \<noteq> [] then df
      else
        let df = search_cars_in_duckdb store (Some (relaxed filters)) limit in
        if df \<noteq> [] then df
        else
          let df = search_cars_in_duckdb store (Some (super_relaxed (relaxed filters))) limit in
          if df \<noteq> [] then df
          else search_cars_in_duckdb store (Some empty_filters) limit)"

text \<open>
  The relaxation ladder as the specification words it: the filter sets of the four stages,
  and the rule "stop at the first stage that yields a non-empty result" (the last stage's
  result is returned as it is).
\<close>

definition ladder_stage_1 :: "car_filters \<Rightarrow> car_filters" where
  "ladder_stage_1 f = f"

definition ladder_stage_2 :: "car_filters \<Rightarrow> car_filters" where
  "ladder_stage_2 f =
     \<lparr>brand = brand f, min_price = min_price f, max_price = max_price f,
      min_year = None, max_year = None, min_mileage = None, max_mileage = None,
      max_owners = max_owners f, engine_cc_category = engine_cc_category f,
      body_type_code = body_type_code f, min_depreciation = min_depreciation f,
      max_depreciation = max_depreciation f\<rparr>"

definition ladder_stage_3 :: "car_filters \<Rightarrow> car_filters" where
  "ladder_stage_3 f =
     \<lparr>brand = brand f, min_price = min_price f, max_price = max_price f,
      min_year = None, max_year = None, min_mileage = None, max_mileage = None,
      max_owners = None, engine_cc_category = None, body_type_code = None,
      min_depreciation = None, max_depreciation = None\<rparr>"

definition ladder_stage_4 :: "car_filters \<Rightarrow> car_filters" where
  "ladder_stage_4 f =
     \<lparr>brand = None, min_price = None, max_price = None,
      min_year = None, max_year = None, min_mileage = None, max_mileage = None,
      max_owners = None, engine_cc_category = None, body_type_code = None,
      min_depreciation = None, max_depreciation = None\<rparr>"

fun first_nonempty :: "'a list list \<Rightarrow> 'a list" where
  "first_nonempty [] = []"
| "first_nonempty [r] = r"
| "first_nonempty (r # r' # rs) = (if r \<noteq> [] then r else first_nonempty (r' # rs))"

text \<open>
  The query's predicate as the specification words it: a conjunction with one conjunct per
  field, true when the field is absent. The brand conjunct is the \<^verbatim>\<open>LIKE\<close> test of the
  lower-cased make against the lower-cased brand between two \<^verbatim>\<open>%\<close>; the other six are
  inclusive bounds.
\<close>

definition brand_matches :: "string \<Rightarrow> string \<Rightarrow> bool" where
  "brand_matches b m = like_match (''%'' @ str_lower b @ ''%'') (str_lower m)"

definition above :: "int option \<Rightarrow> int option \<Rightarrow> bool" where
  "above lo v = (case lo of None \<Rightarrow> True | Some l \<Rightarrow> (case v of None \<Rightarrow> False | Some x \<Rightarrow> l \<le> x))"

definition below :: "int option \<Rightarrow> int option \<Rightarrow> bool" where
  "below hi v = (case hi of None \<Rightarrow> True | Some h \<Rightarrow> (case v of None \<Rightarrow> False | Some x \<Rightarrow> x \<le> h))"

definition row_matches :: "car_filters \<Rightarrow> listing \<Rightarrow> bool" where
  "row_matches f r =
     ((case brand f of None \<Rightarrow> True
       | Some b \<Rightarrow> b = [] \<or> (case make_name r of None \<Rightarrow> False | Some m \<Rightarrow> brand_matches b m))
      \<and> above (min_price f) (price_sgd r) \<and> below (max_price f) (price_sgd r)
      \<and> above (min_year f) (year r) \<and> below (max_year f) (year r)
      \<and> above (min_mileage f) (mileage_km r) \<and> below (max_mileage f) (mileage_km r))"

text \<open>Rows and filter sets used to run the model on concrete inputs.\<close>

definition honda_85k :: listing where
  "honda_85k = \<lparr>make_name = Some ''Honda'', price_sgd = Some 85000, year = Some 2019,
                 mileage_km = Some 40000, listing_url = ''listing/1''\<rparr>"

definition toyota_95k :: listing where
  "toyota_95k = \<lparr>make_name = Some ''Toyota'', price_sgd = Some 95000, year = Some 2016,
                  mileage_km = Some 90000, listing_url = ''listing/2''\<rparr>"

definition bmw_150k :: listing where
  "bmw_150k = \<lparr>make_name = Some ''BMW'', price_sgd = Some 150000, year = Some 2021,
                mileage_km = Some 20000, listing_url = ''listing/3''\<rparr>"

definition mazda_filters :: car_filters where
  "mazda_filters =
     \<lparr>brand = Some ''mazda'', min_price = Some 80000, max_price = Some 120000,
      min_year = Some 2015, max_year = Some 2025, min_mileage = Some 0,
      max_mileage = Some 120000, max_owners = Some 3, engine_cc_category = None,
      body_type_code = Some 3, min_depreciation = None, max_depreciation = None\<rparr>"

section \<open>The filter builder (filters.py)\<close>

text \<open>
  A value stored in the \<^verbatim>\<open>profile\<close> dictionary: \<^verbatim>\<open>None\<close>, an \<^verbatim>\<open>int\<close> or a \<^verbatim>\<open>str\<close>. A field of
  the record is \<open>None\<close> when the dictionary has no such key.
\<close>

datatype pyval = VNone | VInt int | VStr string

datatype py_error = TypeError | AttributeError | OverflowError | ValueError

record profile =
  budget_sgd :: "pyval option"
  age_preference :: "pyval option"
  mileage_tolerance :: "pyval option"
  owner_tolerance :: "pyval option"
  brand_bias :: "pyval option"
  body_type_pref :: "pyval option"
  running_cost_priority :: "pyval option"
  fuel_pref :: "pyval option"
  family_size :: "pyval option"

definition empty_profile :: profile where
  "empty_profile =
     \<lparr>budget_sgd = None, age_preference = None, mileage_tolerance = None,
      owner_tolerance = None, brand_bias = None, body_type_pref = None,
      running_cost_priority = None, fuel_pref = None, family_size = None\<rparr>"

text \<open>\<^verbatim>\<open>profile.get(key, default)\<close>: the default stands in for a missing key only.\<close>

definition dict_get :: "pyval option \<Rightarrow> pyval \<Rightarrow> pyval" where
  "dict_get entry dflt = (case entry of None \<Rightarrow> dflt | Some v \<Rightarrow> v)"

text \<open>
  A \<^verbatim>\<open>float\<close> is a rational number, an infinity or \<^verbatim>\<open>NaN\<close>. The finite doubles are the
  numbers \<open>m * 2^e\<close> with \<open>\<bar>m\<bar> < 2^53\<close> that are below \<open>2^1024\<close> in size; an operation
  returns the double nearest to its exact result, the one with the even \<open>m\<close> on a tie,
  and an infinity from \<open>2^1024\<close> on. (Results too small to have 53 bits do not occur
  here: a product of an integer with 0.8 or 1.2 is zero or at least 0.8 in size.)
\<close>

datatype fval = Fin rat | PosInf | NegInf | NaN

definition round_half_even :: "rat \<Rightarrow> int" where
  "round_half_even x =
     (let f = \<lfloor>x\<rfloor>; d = x - of_int f in
      if d < 1 / 2 then f else if 1 / 2 < d then f + 1 else if even f then f else f + 1)"

text \<open>The integer nearest to \<open>m\<close> among those with at most 53 significant bits.\<close>

definition round_53 :: "int \<Rightarrow> int" where
  "round_53 m =
     (let s = nat (bitlen \<bar>m\<bar> - 53) in round_half_even (of_int m / 2 ^ s) * 2 ^ s)"

text \<open>
  The literals \<^verbatim>\<open>0.8\<close> and \<^verbatim>\<open>1.2\<close> are the doubles \<open>float_0_8 / 2^52\<close> and
  \<open>float_1_2 / 2^52\<close>, a little above 0.8 and a little below 1.2.
\<close>

definition float_0_8 :: int where
  "float_0_8 = 3602879701896397"

definition float_1_2 :: int where
  "float_1_2 = 5404319552844595"

text \<open>The product of the integer-valued double \<open>a\<close> and the double \<open>c / 2^52\<close>.\<close>

definition float_product :: "int \<Rightarrow> int \<Rightarrow> fval" where
  "float_product a c =
     (let r = round_53 (a * c) in
      if 2 ^ 1076 \<le> r then PosInf
      else if r \<le> - (2 ^ 1076) then NegInf
      else Fin (of_int r / 2 ^ 52))"

text \<open>
  \<^verbatim>\<open>value * c\<close> for the float \<open>c / 2^52\<close>: an \<^verbatim>\<open>int\<close> is converted to the nearest double
  first, which fails when that is not finite. \<^verbatim>\<open>int(x)\<close> on a float rounds towards zero and
  fails on an infinity and on \<^verbatim>\<open>NaN\<close>.
\<close>

fun mul_float :: "pyval \<Rightarrow> int \<Rightarrow> py_error + fval" where
  "mul_float (VInt n) c =
     (if 2 ^ 1024 \<le> \<bar>round_53 n\<bar> then Inl OverflowError
      else Inr (float_product (round_53 n) c))"
| "mul_float VNone c = Inl TypeError"
| "mul_float (VStr s) c = Inl TypeError"

fun py_int :: "fval \<Rightarrow> py_error + int" where
  "py_int (Fin q) = Inr (if q < 0 then \<lceil>q\<rceil> else \<lfloor>q\<rfloor>)"
| "py_int PosInf = Inl OverflowError"
| "py_int NegInf = Inl OverflowError"
| "py_int NaN = Inl ValueError"

text \<open>\<^verbatim>\<open>value.lower()\<close> and \<^verbatim>\<open>value >= k\<close> for an int \<open>k\<close>.\<close>

fun lower_method :: "pyval \<Rightarrow> py_error + string" where
  "lower_method (VStr s) = Inr (str_lower s)"
| "lower_method VNone = Inl AttributeError"
| "lower_method (VInt n) = Inl AttributeError"

fun ge_int :: "pyval \<Rightarrow> int \<Rightarrow> py_error + bool" where
  "ge_int (VInt n) k = Inr (k \<le> n)"
| "ge_int VNone k = Inl TypeError"
| "ge_int (VStr s) k = Inl TypeError"

text \<open>\<^verbatim>\<open>s.replace(old, "")\<close>: the occurrences of \<open>old\<close> are cut out from left to right.\<close>

function str_remove :: "string \<Rightarrow> string \<Rightarrow> string" where
  "str_remove old [] = []"
| "str_remove old (c # cs) =
     (if old \<noteq> [] \<and> starts_with old (c # cs)
      then str_remove old (drop (length old) (c # cs))
      else c # str_remove old cs)"
  by pat_completeness auto
termination
  by (relation "measure (\<lambda>(old, s). length s)") (auto simp: neq_Nil_conv)

text \<open>\<^verbatim>\<open>s.strip()\<close>: white space is cut from both ends.\<close>

definition is_space :: "char \<Rightarrow> bool" where
  "is_space c =
     (let n = (of_char c :: nat) in n = 32 \<or> (9 \<le> n \<and> n \<le> 13) \<or> (28 \<le> n \<and> n \<le> 31))"

definition str_strip :: "string \<Rightarrow> string" where
  "str_strip s = rev (dropWhile is_space (rev (dropWhile is_space s)))"

text \<open>
  An exception raised in a step ends the function: \<open>and_then\<close> passes the value of a step
  that returned on to the rest.
\<close>

definition and_then :: "py_error + 'a \<Rightarrow> ('a \<Rightarrow> py_error + 'b) \<Rightarrow> py_error + 'b" where
  "and_then r k = (case r of Inl e \<Rightarrow> Inl e | Inr v \<Rightarrow> k v)"

text \<open>\<^verbatim>\<open>int(budget * 0.8)\<close>, then \<^verbatim>\<open>int(budget * 1.2)\<close>.\<close>

definition budget_band :: "pyval \<Rightarrow> py_error + int \<times> int" where
  "budget_band budget =
     and_then (mul_float budget float_0_8) (\<lambda>lower.
     and_then (py_int lower) (\<lambda>min_price.
     and_then (mul_float budget float_1_2) (\<lambda>upper.
     and_then (py_int upper) (\<lambda>max_price.
     Inr (min_price, max_price)))))"

text \<open>\<^verbatim>\<open>_derive_price_band\<close>, the price band of \<^verbatim>\<open>profile_to_filters\<close>.\<close>

definition derive_price_band :: "int option \<Rightarrow> py_error + int option \<times> int option" where
  "derive_price_band budget =
     (case budget of
        None \<Rightarrow> Inr (None, None)
      | Some b \<Rightarrow>
          if b = 0 \<or> b \<le> 0 then Inr (None, None)
          else and_then (budget_band (VInt b)) (\<lambda>band.
               Inr (Some (fst band), Some (snd band))))"

text \<open>
  \<^verbatim>\<open>build_filters_from_profile\<close>: the last of the three definitions of that name in
  the module, which is the one in force. Its numbered parts are defined one by one.
\<close>

definition year_preference :: "pyval \<Rightarrow> int \<times> int" where
  "year_preference age_pref =
     (if age_pref = VStr ''newest'' then (2020, 2025)
      else if age_pref = VStr ''older_ok'' then (2012, 2025)
      else (2015, 2025))"

definition mileage_ceiling :: "pyval \<Rightarrow> int" where
  "mileage_ceiling mileage_pref =
     (if mileage_pref = VStr ''low'' then 60000
      else if mileage_pref = VStr ''high'' then 180000
      else 120000)"

definition owners_ceiling :: "pyval \<Rightarrow> int" where
  "owners_ceiling owner_pref =
     (if owner_pref = VStr ''low'' then 1
      else if owner_pref = VStr ''high'' then 5
      else 3)"

definition brand_of_bias :: "pyval \<Rightarrow> py_error + string" where
  "brand_of_bias bias =
     and_then (lower_method bias) (\<lambda>lowered.
     Inr (if str_contains ''prefer'' lowered
          then str_strip (str_remove ''prefer'' (str_remove ''prefers'' lowered))
          else []))"

definition body_type :: "pyval \<Rightarrow> int option" where
  "body_type body_pref =
     (if body_pref = VStr ''sedan_or_hatchback'' then Some 4
      else if body_pref = VStr ''mpv'' then Some 7
      else if body_pref = VStr ''suv'' then Some 3
      else None)"

definition depreciation :: "pyval \<Rightarrow> int option \<times> int option" where
  "depreciation dep_pref =
     (if dep_pref = VStr ''low'' then (None, Some 15000)
      else if dep_pref = VStr ''high'' then (Some 15000, None)
      else (None, None))"

definition ev_engine_code :: "pyval \<Rightarrow> int option" where
  "ev_engine_code fuel = (if fuel = VStr ''ev'' then Some 0 else None)"

definition family_size_override :: "pyval \<Rightarrow> int option \<Rightarrow> py_error + int option" where
  "family_size_override members body_code =
     and_then (ge_int members 5) (\<lambda>large.
     Inr (if large \<and> body_code = None then Some 7 else body_code))"

definition build_filters_from_profile :: "profile \<Rightarrow> py_error + car_filters" where
  "build_filters_from_profile profile =
     and_then (budget_band (dict_get (budget_sgd profile) (VInt 0))) (\<lambda>price.
     and_then (brand_of_bias (dict_get (brand_bias profile) (VStr []))) (\<lambda>brand_text.
     and_then (family_size_override (dict_get (family_size profile) (VInt 0))
                 (body_type (dict_get (body_type_pref profile) (VStr [])))) (\<lambda>body_code.
     Inr \<lparr>brand = Some brand_text,
          min_price = Some (fst price),
          max_price = Some (snd price),
          min_year = Some (fst (year_preference (dict_get (age_preference profile) (VStr ''balanced'')))),
          max_year = Some (snd (year_preference (dict_get (age_preference profile) (VStr ''balanced'')))),
          min_mileage = Some 0,
          max_mileage = Some (mileage_ceiling (dict_get (mileage_tolerance profile) (VStr ''medium''))),
          max_owners = Some (owners_ceiling (dict_get (owner_tolerance profile) (VStr ''medium''))),
          engine_cc_category = ev_engine_code (dict_get (fuel_pref profile) VNone),
          body_type_code = body_code,
          min_depreciation = fst (depreciation (dict_get (running_cost_priority profile) (VStr ''medium''))),
          max_depreciation = snd (depreciation (dict_get (running_cost_priority profile) (VStr ''medium'')))\<rparr>)))"

text \<open>
  A profile whose budget and family size, where present, are integers and whose brand
  bias, where present, is a string; the other six fields are free.
\<close>

definition typed_profile :: "profile \<Rightarrow> bool" where
  "typed_profile p =
     ((case budget_sgd p of None \<Rightarrow> True | Some (VInt n) \<Rightarrow> True | Some _ \<Rightarrow> False)
      \<and> (case brand_bias p of None \<Rightarrow> True | Some (VStr s) \<Rightarrow> True | Some _ \<Rightarrow> False)
      \<and> (case family_size p of None \<Rightarrow> True | Some (VInt n) \<Rightarrow> True | Some _ \<Rightarrow> False))"

definition suv_profile :: profile where
  "suv_profile = empty_profile
     \<lparr>budget_sgd := Some (VInt 100000), age_preference := Some (VStr ''balanced''),
      mileage_tolerance := Some (VStr ''medium''), owner_tolerance := Some (VStr ''medium''),
      brand_bias := Some (VStr ''Prefers Toyota''),
      body_type_pref := Some (VStr ''suv'')\<rparr>"

definition suv_filters :: car_filters where
  "suv_filters =
     \<lparr>brand = Some ''toyota'', min_price = Some 80000, max_price = Some 120000,
      min_year = Some 2015, max_year = Some 2025, min_mileage = Some 0,
      max_mileage = Some 120000, max_owners = Some 3, engine_cc_category = None,
      body_type_code = Some 3, min_depreciation = None, max_depreciation = None\<rparr>"

section \<open>The value scoring engine (value\_model.py)\<close>

text \<open>
  The cells of a \<^verbatim>\<open>float64\<close> column are values of \<^typ>\<open>fval\<close>; in this section arithmetic
  on the finite values is exact (no rounding). A cell of the input frame is a number (or a
  string that reads as one), something that is not numeric, or missing; a frame without
  one of the four columns is a frame whose cells in that column are all missing. The frame
  is the list of its rows, indexed 0, 1, 2, ... as a frame fresh from a query is.
\<close>

datatype raw_cell = Numeric fval | NonNumeric | Missing

record df_row =
  price_cell :: raw_cell
  mileage_cell :: raw_cell
  depreciation_cell :: raw_cell
  year_cell :: raw_cell

text \<open>\<^verbatim>\<open>pd.to_numeric(errors="coerce")\<close> on one cell.\<close>

fun to_numeric :: "raw_cell \<Rightarrow> fval" where
  "to_numeric (Numeric v) = v"
| "to_numeric NonNumeric = NaN"
| "to_numeric Missing = NaN"

text \<open>
  \<^verbatim>\<open>s.replace([np.inf, -np.inf], np.nan)\<close> on one cell; from here on \<open>None\<close> is \<^verbatim>\<open>NaN\<close>.
\<close>

fun replace_inf :: "fval \<Rightarrow> rat option" where
  "replace_inf (Fin x) = Some x"
| "replace_inf PosInf = None"
| "replace_inf NegInf = None"
| "replace_inf NaN = None"

text \<open>The values that \<^verbatim>\<open>s.min()\<close> and \<^verbatim>\<open>s.max()\<close> range over: \<^verbatim>\<open>NaN\<close> is skipped.\<close>

fun known :: "rat option list \<Rightarrow> rat list" where
  "known [] = []"
| "known (None # vs) = known vs"
| "known (Some x # vs) = x # known vs"

definition normalize :: "fval list \<Rightarrow> bool \<Rightarrow> rat option list" where
  "normalize series reverse =
     (let s = map replace_inf series in
      if list_all (\<lambda>v. v = None) s then replicate (length s) (Some (1 / 2))
      else
        let min_v = Min (set (known s)); max_v = Max (set (known s)) in
        if max_v = min_v then replicate (length s) (Some (1 / 2))
        else
          let norm = map (map_option (\<lambda>x. (x - min_v) / (max_v - min_v))) s in
          if reverse then map (map_option (\<lambda>n. 1 - n)) norm else norm)"

text \<open>Arithmetic on a column entry: \<^verbatim>\<open>NaN\<close> in, \<^verbatim>\<open>NaN\<close> out.\<close>

definition scale :: "rat \<Rightarrow> rat option \<Rightarrow> rat option" where
  "scale c v = map_option (\<lambda>x. c * x) v"

fun plus_nan :: "rat option \<Rightarrow> rat option \<Rightarrow> rat option" where
  "plus_nan (Some x) (Some y) = Some (x + y)"
| "plus_nan None w = None"
| "plus_nan (Some x) None = None"

text \<open>
  \<^verbatim>\<open>rank(ascending=False, method="dense")\<close>: one more than the number of distinct
  scores above one's own; \<^verbatim>\<open>NaN\<close> is not ranked.
\<close>

definition dense_rank :: "rat option list \<Rightarrow> nat option list" where
  "dense_rank scores =
     map (map_option (\<lambda>x. Suc (length (remdups (filter (\<lambda>y. x < y) (known scores)))))) scores"

record scored_row =
  source_row :: df_row
  value_price :: "rat option"
  value_mileage :: "rat option"
  value_depreciation :: "rat option"
  value_year :: "rat option"
  value_score :: "rat option"
  value_rank :: "nat option"

definition compute_value_scores :: "df_row list \<Rightarrow> scored_row list" where
  "compute_value_scores df =
     (let price = map (\<lambda>r. to_numeric (price_cell r)) df;
          mileage = map (\<lambda>r. to_numeric (mileage_cell r)) df;
          depreciation_per_year = map (\<lambda>r. to_numeric (depreciation_cell r)) df;
          year_built = map (\<lambda>r. to_numeric (year_cell r)) df;
          v_price = normalize price True;
          v_mileage = normalize mileage True;
          v_depreciation = normalize depreciation_per_year True;
          v_year = normalize year_built False;
          v_score = map (\<lambda>i.
              scale 100
                (plus_nan
                  (plus_nan
                    (plus_nan (scale (40 / 100) (v_price ! i)) (scale (25 / 100) (v_mileage ! i)))
                    (scale (20 / 100) (v_depreciation ! i)))
                  (scale (15 / 100) (v_year ! i)))) [0..<length df];
          v_rank = dense_rank v_score
      in map (\<lambda>i. \<lparr>source_row = df ! i, value_price = v_price ! i,
                     value_mileage = v_mileage ! i, value_depreciation = v_depreciation ! i,
                     value_year = v_year ! i, value_score = v_score ! i,
                     value_rank = v_rank ! i\<rparr>) [0..<length df])"

text \<open>
  The scoring rule as the specification words it. A column is degenerate when all its
  known values are equal, which includes the column with no known value. The normalized
  value is 0.5 on a degenerate column and \<open>(x - min) / (max - min)\<close> otherwise; price,
  mileage and depreciation take \<open>1 - norm\<close>, the year takes \<open>norm\<close>; the score is 100 times
  the weighted sum of the four components.
\<close>

definition numeric :: "raw_cell \<Rightarrow> rat option" where
  "numeric c = replace_inf (to_numeric c)"

definition column :: "(df_row \<Rightarrow> raw_cell) \<Rightarrow> df_row list \<Rightarrow> rat option list" where
  "column c df = map (\<lambda>r. numeric (c r)) df"

definition degenerate :: "rat option list \<Rightarrow> bool" where
  "degenerate col = list_all (\<lambda>a. list_all (\<lambda>b. a = b) (known col)) (known col)"

definition min_max_norm :: "rat option list \<Rightarrow> rat option \<Rightarrow> rat option" where
  "min_max_norm col x =
     (if degenerate col then Some (1 / 2)
      else map_option
        (\<lambda>v. (v - Min (set (known col))) / (Max (set (known col)) - Min (set (known col)))) x)"

definition lower_is_better :: "rat option list \<Rightarrow> rat option \<Rightarrow> rat option" where
  "lower_is_better col x = map_option (\<lambda>n. 1 - n) (min_max_norm col x)"

definition higher_is_better :: "rat option list \<Rightarrow> rat option \<Rightarrow> rat option" where
  "higher_is_better col x = min_max_norm col x"

definition weight_price :: rat where "weight_price = 40 / 100"
definition weight_mileage :: rat where "weight_mileage = 25 / 100"
definition weight_depreciation :: rat where "weight_depreciation = 20 / 100"
definition weight_year :: rat where "weight_year = 15 / 100"

fun composite :: "rat option \<Rightarrow> rat option \<Rightarrow> rat option \<Rightarrow> rat option \<Rightarrow> rat option" where
  "composite (Some p) (Some m) (Some d) (Some y) =
     Some (100 * (weight_price * p + weight_mileage * m + weight_depreciation * d + weight_year * y))"
| "composite None m d y = None"
| "composite (Some p) None d y = None"
| "composite (Some p) (Some m) None y = None"
| "composite (Some p) (Some m) (Some d) None = None"

definition spec_score :: "df_row list \<Rightarrow> df_row \<Rightarrow> rat option" where
  "spec_score df r =
     composite (lower_is_better (column price_cell df) (numeric (price_cell r)))
       (lower_is_better (column mileage_cell df) (numeric (mileage_cell r)))
       (lower_is_better (column depreciation_cell df) (numeric (depreciation_cell r)))
       (higher_is_better (column year_cell df) (numeric (year_cell r)))"

text \<open>The four scored attributes, to speak of any one of them.\<close>

datatype attribute = Price | Mileage | Depreciation | Year

fun cell_of :: "attribute \<Rightarrow> df_row \<Rightarrow> raw_cell" where
  "cell_of Price = price_cell"
| "cell_of Mileage = mileage_cell"
| "cell_of Depreciation = depreciation_cell"
| "cell_of Year = year_cell"

fun component_of :: "attribute \<Rightarrow> scored_row \<Rightarrow> rat option" where
  "component_of Price = value_price"
| "component_of Mileage = value_mileage"
| "component_of Depreciation = value_depreciation"
| "component_of Year = value_year"



definition car :: "raw_cell \<Rightarrow> raw_cell \<Rightarrow> raw_cell \<Rightarrow> df_row" where
  "car p m y = \<lparr>price_cell = p, mileage_cell = m, depreciation_cell = Missing, year_cell = y\<rparr>"

definition num :: "int \<Rightarrow> raw_cell" where
  "num n = Numeric (Fin (of_int n))"

definition batch_unknown_price :: "df_row list" where
  "batch_unknown_price =
     [car NonNumeric (num 40000) (num 2019),
      car (num 95000) (num 90000) (num 2016),
      car (num 150000) (num 20000) (num 2021)]"



section \<open>Properties of the fallback search\<close>

lemma where_and_params_empty: "where_and_params empty_filters = []"
  by (simp add: where_and_params_def empty_filters_def)

lemma search_empty_filters:
  "search_cars_in_duckdb store (Some empty_filters) limit = take limit (sort_key price_key store)"
  by (simp add: search_cars_in_duckdb_def execute_def filters_or_empty_def where_and_params_empty)

lemma take_sort_key_nonempty:
  assumes "xs \<noteq> []" and "0 < n"
  shows "take n (sort_key k xs) \<noteq> []"
proof -
  have "length (sort_key k xs) = length xs" by simp
  with assms(1) have "sort_key k xs \<noteq> []" by (metis length_0_conv)
  with assms(2) show ?thesis by (cases n) (auto simp: neq_Nil_conv)
qed

text \<open>
  Claim C1. Over a store with at least one row and with a positive limit,
  \<open>search_with_fallback\<close> returns at least one row, whatever the filters are: when the first
  three stages are empty the fourth runs the query with no clause, which returns the first
  \<open>limit\<close> rows of the whole store by price.
\<close>

theorem search_with_fallback_nonempty:
  assumes "store \<noteq> []" and "0 < limit"
  shows "search_with_fallback store filters limit \<noteq> []"
proof -
  have "search_cars_in_duckdb store (Some empty_filters) limit \<noteq> []"
    unfolding search_empty_filters by (rule take_sort_key_nonempty [OF assms])
  then show ?thesis
    by (simp add: search_with_fallback_def Let_def)
qed

theorem search_with_fallback_nonempty_witness:
  "[honda_85k] \<noteq> [] \<and> (0::nat) < 80
   \<and> search_with_fallback [honda_85k] (Some mazda_filters) 80 \<noteq> []"
  using search_with_fallback_nonempty [of "[honda_85k]" 80 "Some mazda_filters"] by simp

lemma search_filters_or_empty:
  "search_cars_in_duckdb store (Some (filters_or_empty filters)) limit
     = search_cars_in_duckdb store filters limit"
  by (simp add: search_cars_in_duckdb_def filters_or_empty_def)

lemma relaxed_eq_stage_2: "relaxed filters = ladder_stage_2 (filters_or_empty filters)"
  by (simp add: relaxed_def ladder_stage_2_def)

lemma super_relaxed_eq_stage_3:
  "super_relaxed (relaxed filters) = ladder_stage_3 (filters_or_empty filters)"
  by (simp add: super_relaxed_def relaxed_def ladder_stage_3_def empty_filters_def)

lemma empty_eq_stage_4: "empty_filters = ladder_stage_4 f"
  by (simp add: empty_filters_def ladder_stage_4_def)

lemma where_and_params_stage_2:
  "where_and_params (ladder_stage_2 f) =
     (case brand f of
        None \<Rightarrow> []
      | Some b \<Rightarrow> if b \<noteq> [] then [(LowerMakeLike, PText (''%'' @ str_lower b @ ''%''))] else [])
     @ (case min_price f of None \<Rightarrow> [] | Some v \<Rightarrow> [(PriceGe, PInt v)])
     @ (case max_price f of None \<Rightarrow> [] | Some v \<Rightarrow> [(PriceLe, PInt v)])"
  by (simp add: where_and_params_def ladder_stage_2_def)

text \<open>
  Claim C7, amended. \<open>search_with_fallback\<close> is the four-stage ladder: it returns the result
  of the first of four queries that is not empty (the fourth one's result whatever it is).
  The four queries are made with the filters as given, with the filters whose year and
  mileage bounds are cleared and whose other fields are those given, with the filters that
  hold the given brand and price bounds and nothing else, and with the filters that hold
  nothing. Of the fields that stage 2 passes on, the query applies the brand and the two
  price bounds and no other: its clauses are the brand clause and the price clauses.
\<close>

theorem search_with_fallback_ladder:
  "search_with_fallback store filters limit =
     first_nonempty
       (map (\<lambda>stage. search_cars_in_duckdb store (Some (stage (filters_or_empty filters))) limit)
          [ladder_stage_1, ladder_stage_2, ladder_stage_3, ladder_stage_4])
   \<and> where_and_params (ladder_stage_2 (filters_or_empty filters)) =
       (case brand (filters_or_empty filters) of
          None \<Rightarrow> []
        | Some b \<Rightarrow>
            if b \<noteq> [] then [(LowerMakeLike, PText (''%'' @ str_lower b @ ''%''))] else [])
       @ (case min_price (filters_or_empty filters) of None \<Rightarrow> [] | Some v \<Rightarrow> [(PriceGe, PInt v)])
       @ (case max_price (filters_or_empty filters) of None \<Rightarrow> [] | Some v \<Rightarrow> [(PriceLe, PInt v)])"
proof -
  have "search_with_fallback store filters limit =
     first_nonempty
       (map (\<lambda>stage. search_cars_in_duckdb store (Some (stage (filters_or_empty filters))) limit)
          [ladder_stage_1, ladder_stage_2, ladder_stage_3, ladder_stage_4])"
    by (simp add: search_with_fallback_def Let_def search_filters_or_empty
        relaxed_eq_stage_2 [symmetric] super_relaxed_eq_stage_3 [symmetric]
        empty_eq_stage_4 [symmetric] ladder_stage_1_def)
  with where_and_params_stage_2 [of "filters_or_empty filters"] show ?thesis
    by blast
qed

text \<open>
  Claim C7 as stated fails: with filters that ask for at most 3 owners and body type 3,
  the stage-2 query has a brand clause and two price clauses and none on owners or body
  type, and it returns the same Toyota row when the filters ask for at most 0 owners.
\<close>

theorem stage_2_owners_counterexample:
  "max_owners (relaxed (Some (mazda_filters\<lparr>brand := Some ''toyota''\<rparr>))) = Some 3
   \<and> body_type_code (relaxed (Some (mazda_filters\<lparr>brand := Some ''toyota''\<rparr>))) = Some 3
   \<and> where_and_params (relaxed (Some (mazda_filters\<lparr>brand := Some ''toyota''\<rparr>)))
       = [(LowerMakeLike, PText ''%toyota%''), (PriceGe, PInt 80000), (PriceLe, PInt 120000)]
   \<and> search_cars_in_duckdb [honda_85k, toyota_95k, bmw_150k]
        (Some (relaxed (Some (mazda_filters\<lparr>brand := Some ''toyota''\<rparr>)))) 80 = [toyota_95k]
   \<and> search_cars_in_duckdb [honda_85k, toyota_95k, bmw_150k]
        (Some (relaxed (Some (mazda_filters\<lparr>brand := Some ''toyota'', max_owners := Some 0\<rparr>)))) 80
       = [toyota_95k]"
  by (simp add: search_cars_in_duckdb_def execute_def filters_or_empty_def relaxed_def
      where_and_params_def mazda_filters_def honda_85k_def toyota_95k_def bmw_150k_def
      str_lower_def lower_char_def)

lemma where_and_params_cong:
  assumes "brand f = brand g" "min_price f = min_price g" "max_price f = max_price g"
    "min_year f = min_year g" "max_year f = max_year g"
    "min_mileage f = min_mileage g" "max_mileage f = max_mileage g"
  shows "where_and_params f = where_and_params g"
  using assms by (simp add: where_and_params_def)

lemma where_and_params_super_relaxed:
  "where_and_params (super_relaxed (relaxed filters)) = where_and_params (relaxed filters)"
  by (rule where_and_params_cong) (simp_all add: super_relaxed_def relaxed_def empty_filters_def)

text \<open>
  Claim C10. The store query depends on the filters through the brand, price, year and
  mileage fields only: two filter sets that agree on these seven fields give the same
  result, whatever their owners, engine category, body type and depreciation fields are.
  So the stage-2 and stage-3 queries of \<open>search_with_fallback\<close> have the same clauses and
  parameters and return the same rows, and stage 3 is empty whenever stage 2 is.
\<close>

theorem stage_2_and_stage_3_equivalent:
  "(brand f = brand g \<and> min_price f = min_price g \<and> max_price f = max_price g
      \<and> min_year f = min_year g \<and> max_year f = max_year g
      \<and> min_mileage f = min_mileage g \<and> max_mileage f = max_mileage g
     \<longrightarrow> search_cars_in_duckdb store (Some f) limit = search_cars_in_duckdb store (Some g) limit)
   \<and> where_and_params (super_relaxed (relaxed filters)) = where_and_params (relaxed filters)
   \<and> search_cars_in_duckdb store (Some (super_relaxed (relaxed filters))) limit
       = search_cars_in_duckdb store (Some (relaxed filters)) limit
   \<and> (search_cars_in_duckdb store (Some (relaxed filters)) limit = []
     \<longrightarrow> search_cars_in_duckdb store (Some (super_relaxed (relaxed filters))) limit = [])"
proof -
  have reads: "search_cars_in_duckdb store (Some f) limit = search_cars_in_duckdb store (Some g) limit"
    if "brand f = brand g" "min_price f = min_price g" "max_price f = max_price g"
      "min_year f = min_year g" "max_year f = max_year g"
      "min_mileage f = min_mileage g" "max_mileage f = max_mileage g"
    using where_and_params_cong [OF that]
    by (simp add: search_cars_in_duckdb_def filters_or_empty_def)
  have same: "search_cars_in_duckdb store (Some (super_relaxed (relaxed filters))) limit
       = search_cars_in_duckdb store (Some (relaxed filters)) limit"
    by (simp add: search_cars_in_duckdb_def filters_or_empty_def where_and_params_super_relaxed)
  from reads same where_and_params_super_relaxed show ?thesis by simp
qed

theorem stage_2_and_stage_3_equivalent_witness:
  "(brand mazda_filters = brand (mazda_filters\<lparr>max_owners := Some 1, body_type_code := None\<rparr>)
      \<and> min_price mazda_filters = min_price (mazda_filters\<lparr>max_owners := Some 1, body_type_code := None\<rparr>)
      \<and> max_price mazda_filters = max_price (mazda_filters\<lparr>max_owners := Some 1, body_type_code := None\<rparr>)
      \<and> min_year mazda_filters = min_year (mazda_filters\<lparr>max_owners := Some 1, body_type_code := None\<rparr>)
      \<and> max_year mazda_filters = max_year (mazda_filters\<lparr>max_owners := Some 1, body_type_code := None\<rparr>)
      \<and> min_mileage mazda_filters = min_mileage (mazda_filters\<lparr>max_owners := Some 1, body_type_code := None\<rparr>)
      \<and> max_mileage mazda_filters = max_mileage (mazda_filters\<lparr>max_owners := Some 1, body_type_code := None\<rparr>))
   \<and> search_cars_in_duckdb [honda_85k, toyota_95k, bmw_150k] (Some mazda_filters) 80
       = search_cars_in_duckdb [honda_85k, toyota_95k, bmw_150k]
           (Some (mazda_filters\<lparr>max_owners := Some 1, body_type_code := None\<rparr>)) 80
   \<and> search_cars_in_duckdb [honda_85k, toyota_95k, bmw_150k] (Some (relaxed (Some mazda_filters))) 80 = []
   \<and> search_cars_in_duckdb [honda_85k, toyota_95k, bmw_150k]
        (Some (super_relaxed (relaxed (Some mazda_filters)))) 80 = []"
proof -
  have stage_2_empty:
    "search_cars_in_duckdb [honda_85k, toyota_95k, bmw_150k] (Some (relaxed (Some mazda_filters))) 80 = []"
    by (simp add: search_cars_in_duckdb_def execute_def filters_or_empty_def relaxed_def
        where_and_params_def mazda_filters_def honda_85k_def toyota_95k_def bmw_150k_def
        str_lower_def lower_char_def)
  from stage_2_empty
    stage_2_and_stage_3_equivalent [of mazda_filters
      "mazda_filters\<lparr>max_owners := Some 1, body_type_code := None\<rparr>"
      "[honda_85k, toyota_95k, bmw_150k]" 80 "Some mazda_filters"]
  show ?thesis by simp
qed

section \<open>Properties of the store query\<close>

lemma clauses_eq_row_matches:
  "list_all (clause_holds r) (where_and_params f) = row_matches f r"
  by (auto simp: where_and_params_def row_matches_def brand_matches_def above_def below_def
      split: option.splits)

lemma like_percent_any: "like_match ''%'' s"
  by (induction s) auto

lemma like_wildcard_free_prefix:
  "wildcard_free b \<Longrightarrow> like_match (b @ ''%'') s = starts_with b s"
proof (induction b s rule: starts_with.induct)
  case (1 s)
  then show ?case by (simp add: like_percent_any)
next
  case (2 p ps)
  then show ?case by (auto simp: wildcard_free_def)
next
  case (3 p ps c cs)
  then show ?case by (auto simp: wildcard_free_def)
qed

lemma like_leading_percent:
  "like_match (CHR ''%'' # p) s = (like_match p s \<or> (\<exists>c cs. s = c # cs \<and> like_match (CHR ''%'' # p) cs))"
  by (cases s) auto

lemma like_substring:
  "wildcard_free b \<Longrightarrow> like_match (CHR ''%'' # b @ ''%'') s = str_contains b s"
proof (induction s)
  case Nil
  then show ?case
    using like_wildcard_free_prefix [of b "[]"] by (cases b) (auto simp: wildcard_free_def)
next
  case (Cons c cs)
  then show ?case
    using like_wildcard_free_prefix [of b "c # cs"] by simp
qed

lemma starts_with_iff: "starts_with p s = (\<exists>ys. s = p @ ys)"
  by (induction p s rule: starts_with.induct) auto

lemma str_contains_iff: "str_contains b s = (\<exists>xs ys. s = xs @ b @ ys)"
proof (induction s)
  case Nil
  then show ?case by auto
next
  case (Cons c cs)
  show ?case
  proof
    assume "str_contains b (c # cs)"
    then consider "starts_with b (c # cs)" | "str_contains b cs" by auto
    then show "\<exists>xs ys. c # cs = xs @ b @ ys"
    proof cases
      case 1
      then obtain ys where "c # cs = b @ ys" by (auto simp: starts_with_iff)
      then have "c # cs = [] @ b @ ys" by simp
      then show ?thesis by blast
    next
      case 2
      with Cons obtain xs ys where "cs = xs @ b @ ys" by auto
      then have "c # cs = (c # xs) @ b @ ys" by simp
      then show ?thesis by blast
    qed
  next
    assume "\<exists>xs ys. c # cs = xs @ b @ ys"
    then obtain xs ys where e: "c # cs = xs @ b @ ys" by blast
    show "str_contains b (c # cs)"
    proof (cases xs)
      case Nil
      with e have "starts_with b (c # cs)" by (auto simp: starts_with_iff)
      then show ?thesis by simp
    next
      case (Cons x xs')
      with e have "cs = xs' @ b @ ys" by simp
      with Cons.IH have "str_contains b cs" by blast
      then show ?thesis by simp
    qed
  qed
qed

lemma lower_char_wild: "lower_char c = CHR ''%'' \<longleftrightarrow> c = CHR ''%''" "lower_char c = CHR ''_'' \<longleftrightarrow> c = CHR ''_''"
  by (cases c; auto simp: lower_char_def Let_def)+

lemma wildcard_free_lower: "wildcard_free (str_lower b) = wildcard_free b"
  by (induction b) (auto simp: wildcard_free_def str_lower_def lower_char_wild)

lemma search_eq_filter:
  "search_cars_in_duckdb store filters limit
     = take limit (sort_key price_key (filter (row_matches (filters_or_empty filters)) store))"
  by (simp add: search_cars_in_duckdb_def execute_def clauses_eq_row_matches)

lemma sorted_take_sort_key: "sorted (map k (take n (sort_key k xs)))"
  by (simp add: take_map [symmetric] sorted_wrt_take)

lemma take_drop_sorted:
  assumes "sorted (map k ys)" "x \<in> set (take n ys)" "y \<in> set (drop n ys)"
  shows "k x \<le> k y"
proof -
  have "sorted (map k (take n ys) @ map k (drop n ys))"
    using assms(1) by (simp add: map_append [symmetric] del: map_append)
  then show ?thesis using assms(2,3) by (auto simp: sorted_append)
qed

text \<open>
  Claim C6, amended. The store query returns the rows of the store that satisfy one
  conjunct per field present in the filters (none for an absent field, and none for an
  empty brand), ordered by non-decreasing price with unknown prices last, cut to \<open>limit\<close>
  rows. The price, year and mileage conjuncts are inclusive bounds. The brand conjunct is
  the \<^verbatim>\<open>LIKE\<close> match of the lower-cased make against \<^verbatim>\<open>%brand%\<close>; it says that the
  lower-cased brand occurs inside the lower-cased make whenever the brand contains
  neither \<^verbatim>\<open>%\<close> nor \<^verbatim>\<open>_\<close>. With no field set the result is the first \<open>limit\<close> rows of
  the whole store by price, none of them dearer than a row left out. When no row satisfies
  the conjunction the result is the empty list.
\<close>

theorem search_cars_in_duckdb_contract:
  "search_cars_in_duckdb store filters limit
      = take limit (sort_key price_key (filter (row_matches (filters_or_empty filters)) store))
   \<and> (wildcard_free b \<longrightarrow>
        brand_matches b m = (\<exists>xs ys. str_lower m = xs @ str_lower b @ ys))
   \<and> sorted (map price_key (search_cars_in_duckdb store filters limit))
   \<and> length (search_cars_in_duckdb store filters limit) \<le> limit
   \<and> search_cars_in_duckdb store (Some empty_filters) limit = take limit (sort_key price_key store)
   \<and> (\<forall>x \<in> set (take limit (sort_key price_key store)).
        \<forall>y \<in> set (drop limit (sort_key price_key store)). price_key x \<le> price_key y)
   \<and> ((\<forall>r \<in> set store. \<not> row_matches (filters_or_empty filters) r)
        \<longrightarrow> search_cars_in_duckdb store filters limit = [])"
proof -
  have brand_part: "brand_matches b m = (\<exists>xs ys. str_lower m = xs @ str_lower b @ ys)"
    if "wildcard_free b"
    using that like_substring [of "str_lower b" "str_lower m"]
    by (simp add: brand_matches_def wildcard_free_lower str_contains_iff)
  have sorted_part: "sorted (map price_key (search_cars_in_duckdb store filters limit))"
    unfolding search_eq_filter by (rule sorted_take_sort_key)
  have length_part: "length (search_cars_in_duckdb store filters limit) \<le> limit"
    unfolding search_eq_filter by simp
  have cheapest_part: "price_key x \<le> price_key y"
    if "x \<in> set (take limit (sort_key price_key store))"
      "y \<in> set (drop limit (sort_key price_key store))" for x y
    using take_drop_sorted [of price_key "sort_key price_key store" x limit y] that by simp
  have none_part: "search_cars_in_duckdb store filters limit = []"
    if "\<forall>r \<in> set store. \<not> row_matches (filters_or_empty filters) r"
  proof -
    from that have "filter (row_matches (filters_or_empty filters)) store = []"
      by (simp add: filter_empty_conv)
    then show ?thesis unfolding search_eq_filter by simp
  qed
  from search_eq_filter brand_part sorted_part length_part search_empty_filters cheapest_part none_part
  show ?thesis by blast
qed

text \<open>
  Claim C6 as stated fails: the brand \<^verbatim>\<open>t_y\<close> does not occur in \<^verbatim>\<open>toyota\<close>, yet the query
  returns the Toyota row, since \<^verbatim>\<open>_\<close> in a \<^verbatim>\<open>LIKE\<close> pattern stands for any one character.
\<close>

theorem brand_substring_counterexample:
  "search_cars_in_duckdb [toyota_95k] (Some (empty_filters\<lparr>brand := Some ''t_y''\<rparr>)) 80 = [toyota_95k]
   \<and> make_name toyota_95k = Some ''Toyota''
   \<and> \<not> str_contains (str_lower ''t_y'') (str_lower ''Toyota'')"
  by (simp add: search_cars_in_duckdb_def execute_def filters_or_empty_def where_and_params_def
      empty_filters_def toyota_95k_def str_lower_def lower_char_def)

theorem search_cars_in_duckdb_contract_witness:
  "wildcard_free ''Toyota''
   \<and> brand_matches ''Toyota'' ''TOYOTA''
   \<and> \<not> row_matches (filters_or_empty (Some mazda_filters)) honda_85k
   \<and> \<not> row_matches (filters_or_empty (Some mazda_filters)) toyota_95k
   \<and> \<not> row_matches (filters_or_empty (Some mazda_filters)) bmw_150k
   \<and> search_cars_in_duckdb [honda_85k, toyota_95k, bmw_150k] (Some mazda_filters) 1 = []
   \<and> honda_85k \<in> set (take 1 (sort_key price_key [honda_85k, toyota_95k, bmw_150k]))
   \<and> bmw_150k \<in> set (drop 1 (sort_key price_key [honda_85k, toyota_95k, bmw_150k]))
   \<and> price_key honda_85k \<le> price_key bmw_150k"
proof -
  have free: "wildcard_free ''Toyota''"
    by (simp add: wildcard_free_def)
  have inside: "str_lower ''TOYOTA'' = [] @ str_lower ''Toyota'' @ []"
    by (simp add: str_lower_def lower_char_def)
  have none: "\<not> row_matches (filters_or_empty (Some mazda_filters)) honda_85k"
    "\<not> row_matches (filters_or_empty (Some mazda_filters)) toyota_95k"
    "\<not> row_matches (filters_or_empty (Some mazda_filters)) bmw_150k"
    by (simp_all add: row_matches_def brand_matches_def filters_or_empty_def mazda_filters_def
        honda_85k_def toyota_95k_def bmw_150k_def str_lower_def lower_char_def)
  have kept: "honda_85k \<in> set (take 1 (sort_key price_key [honda_85k, toyota_95k, bmw_150k]))"
    and cut: "bmw_150k \<in> set (drop 1 (sort_key price_key [honda_85k, toyota_95k, bmw_150k]))"
    by (simp_all add: price_key_def honda_85k_def toyota_95k_def bmw_150k_def)
  note contract =
    search_cars_in_duckdb_contract [of "[honda_85k, toyota_95k, bmw_150k]" "Some mazda_filters" 1
      "''Toyota''" "''TOYOTA''"]
  from contract free inside have matches: "brand_matches ''Toyota'' ''TOYOTA''"
    by blast
  from contract none
  have empty: "search_cars_in_duckdb [honda_85k, toyota_95k, bmw_150k] (Some mazda_filters) 1 = []"
    by simp
  from contract kept cut have cheaper: "price_key honda_85k \<le> price_key bmw_150k"
    by blast
  from free matches none empty kept cut cheaper show ?thesis
    by blast
qed

section \<open>Properties of the filter builder\<close>

lemma round_half_even_near: "\<bar>of_int (round_half_even x) - x\<bar> \<le> 1 / 2"
proof -
  have "of_int \<lfloor>x\<rfloor> \<le> x" "x < of_int \<lfloor>x\<rfloor> + 1" by linarith+
  then show ?thesis
    unfolding round_half_even_def Let_def by (auto simp: abs_le_iff)
qed

lemma round_half_even_of_int: "round_half_even (of_int m) = m"
  by (simp add: round_half_even_def)

lemma round_53_small:
  assumes "0 \<le> m" "m < 2 ^ 53"
  shows "round_53 m = m"
proof -
  have "bitlen m \<le> 53" using assms(2) by (simp add: bitlen_le_iff_power)
  then have "nat (bitlen \<bar>m\<bar> - 53) = 0" using assms(1) by simp
  then show ?thesis by (simp add: round_53_def round_half_even_of_int Let_def)
qed

text \<open>
  Rounding a positive integer to 53 bits gives a multiple of the last place \<open>T\<close>, at most
  half of \<open>T\<close> away.
\<close>

lemma round_53_pos:
  assumes "0 < M"
  defines "T \<equiv> (2::int) ^ nat (bitlen M - 53)"
  shows "T dvd round_53 M" and "\<bar>2 * round_53 M - 2 * M\<bar> \<le> T" and "M < 2 ^ 53 * T"
proof -
  have T_pos: "0 < T" by (simp add: T_def)
  have r: "round_53 M = round_half_even (of_int M / of_int T) * T"
    using assms(1) by (simp add: round_53_def T_def Let_def)
  show "T dvd round_53 M" by (simp add: r)
  define R where "R = round_half_even (of_int M / of_int T)"
  have near: "\<bar>(of_int R :: rat) - of_int M / of_int T\<bar> \<le> 1 / 2"
    unfolding R_def by (rule round_half_even_near)
  have "\<bar>(of_int R :: rat) - of_int M / of_int T\<bar> * (2 * of_int T) \<le> 1 / 2 * (2 * of_int T)"
    using near T_pos by (intro mult_right_mono) simp_all
  moreover have "\<bar>(of_int R :: rat) - of_int M / of_int T\<bar> * (2 * of_int T)
      = \<bar>of_int (2 * (R * T) - 2 * M)\<bar>"
  proof -
    have "\<bar>(of_int R :: rat) - of_int M / of_int T\<bar> * (2 * of_int T)
        = \<bar>((of_int R :: rat) - of_int M / of_int T) * (2 * of_int T)\<bar>"
      using T_pos by (simp add: abs_mult)
    also have "((of_int R :: rat) - of_int M / of_int T) * (2 * of_int T)
        = of_int (2 * (R * T) - 2 * M)"
      using T_pos by (simp add: field_simps)
    finally show ?thesis .
  qed
  ultimately have "\<bar>(of_int (2 * (R * T) - 2 * M) :: rat)\<bar> \<le> of_int T" by simp
  then have "\<bar>2 * (R * T) - 2 * M\<bar> \<le> T"
    by (metis of_int_abs of_int_le_iff)
  then show "\<bar>2 * round_53 M - 2 * M\<bar> \<le> T" by (simp add: r R_def)
  have "M < 2 ^ nat (bitlen M)" using bitlen_bounds [OF assms(1)] by simp
  also have "(2::int) ^ nat (bitlen M) \<le> 2 ^ (53 + nat (bitlen M - 53))"
    by (intro power_increasing) auto
  finally show "M < 2 ^ 53 * T" by (simp add: T_def power_add)
qed

lemma dvd_above_minus:
  fixes T x :: int
  assumes "T dvd x" "- T < x" "0 < T"
  shows "0 \<le> x"
proof -
  from assms(1) obtain c where c: "x = T * c" by (auto simp: dvd_def)
  with assms(2,3) have "T * (- 1) < T * c" by simp
  with assms(3) have "- 1 < c" by (simp only: mult_less_cancel_left_pos)
  with assms(3) c show ?thesis by simp
qed

text \<open>
  When \<open>M / 2^52\<close> lies between \<open>k\<close> and \<open>k + 1\<close> with the margins below, so does the
  double nearest to it.
\<close>

lemma round_53_window:
  assumes "0 < M" "M < 2 ^ 102"
    and lower: "\<And>T. 0 < T \<Longrightarrow> M < 2 ^ 53 * T \<Longrightarrow> 2 * (k * 2 ^ 52) < 2 * M + T"
    and upper: "2 * M + 2 ^ 49 < 2 * ((k + 1) * 2 ^ 52)"
  shows "k * 2 ^ 52 \<le> round_53 M" and "round_53 M < (k + 1) * 2 ^ 52"
proof -
  define T :: int where "T = 2 ^ nat (bitlen M - 53)"
  have T_pos: "0 < T" by (simp add: T_def)
  note p = round_53_pos [OF assms(1), folded T_def]
  have "bitlen M \<le> 102" using assms(2) by (simp add: bitlen_le_iff_power)
  then have s: "nat (bitlen M - 53) \<le> 49" by simp
  then have T_le: "T \<le> 2 ^ 49" unfolding T_def by (intro power_increasing) simp_all
  have "T dvd 2 ^ 52" unfolding T_def using s by (intro le_imp_power_dvd) simp
  then have "T dvd k * 2 ^ 52" by simp
  with p(1) have d: "T dvd round_53 M - k * 2 ^ 52" by (rule dvd_diff)
  from lower [OF T_pos p(3)] p(2) have "- T < round_53 M - k * 2 ^ 52" by linarith
  from dvd_above_minus [OF d this T_pos] show "k * 2 ^ 52 \<le> round_53 M" by simp
  from upper p(2) T_le show "round_53 M < (k + 1) * 2 ^ 52" by linarith
qed

lemma product_0_8:
  assumes "0 < b" "b < 2 ^ 49"
  shows "(4 * b) div 5 * 2 ^ 52 \<le> round_53 (b * float_0_8)"
    and "round_53 (b * float_0_8) < ((4 * b) div 5 + 1) * 2 ^ 52"
proof -
  define k where "k = (4 * b) div 5"
  define r where "r = (4 * b) mod 5"
  have kr: "4 * b = 5 * k + r" "0 \<le> r" "r < 5" by (simp_all add: k_def r_def)
  have pos: "0 < b * float_0_8" using assms(1) by (simp add: float_0_8_def)
  have small: "b * float_0_8 < 2 ^ 102" using assms by (simp add: float_0_8_def)
  have lower: "2 * (k * 2 ^ 52) < 2 * (b * float_0_8) + T" if "0 < T" for T
    using kr that assms unfolding float_0_8_def by simp
  have upper: "2 * (b * float_0_8) + 2 ^ 49 < 2 * ((k + 1) * 2 ^ 52)"
    using kr assms unfolding float_0_8_def by simp
  from round_53_window [OF pos small lower upper]
  show "(4 * b) div 5 * 2 ^ 52 \<le> round_53 (b * float_0_8)"
    and "round_53 (b * float_0_8) < ((4 * b) div 5 + 1) * 2 ^ 52"
    by (simp_all add: k_def)
qed

lemma product_1_2:
  assumes "0 < b" "b < 2 ^ 49"
  shows "(6 * b) div 5 * 2 ^ 52 \<le> round_53 (b * float_1_2)"
    and "round_53 (b * float_1_2) < ((6 * b) div 5 + 1) * 2 ^ 52"
proof -
  define k where "k = (6 * b) div 5"
  define r where "r = (6 * b) mod 5"
  have kr: "6 * b = 5 * k + r" "0 \<le> r" "r < 5" by (simp_all add: k_def r_def)
  have pos: "0 < b * float_1_2" using assms(1) by (simp add: float_1_2_def)
  have small: "b * float_1_2 < 2 ^ 102" using assms by (simp add: float_1_2_def)
  have lower: "2 * (k * 2 ^ 52) < 2 * (b * float_1_2) + T"
    if "0 < T" "b * float_1_2 < 2 ^ 53 * T" for T
    using kr that assms unfolding float_1_2_def by simp
  have upper: "2 * (b * float_1_2) + 2 ^ 49 < 2 * ((k + 1) * 2 ^ 52)"
    using kr assms unfolding float_1_2_def by simp
  from round_53_window [OF pos small lower upper]
  show "(6 * b) div 5 * 2 ^ 52 \<le> round_53 (b * float_1_2)"
    and "round_53 (b * float_1_2) < ((6 * b) div 5 + 1) * 2 ^ 52"
    by (simp_all add: k_def)
qed

text \<open>
  The integer part of a double product whose 53-bit numerator lies between \<open>k * 2^52\<close>
  and \<open>(k + 1) * 2^52\<close>.
\<close>

lemma int_of_product:
  assumes "0 \<le> k" "k < 2 ^ 53" "k * 2 ^ 52 \<le> round_53 (a * c)" "round_53 (a * c) < (k + 1) * 2 ^ 52"
  shows "and_then (Inr (float_product a c)) py_int = Inr k"
proof -
  define W where "W = round_53 (a * c)"
  have W: "k * 2 ^ 52 \<le> W" "W < (k + 1) * 2 ^ 52" using assms(3,4) by (simp_all add: W_def)
  have nonneg: "0 \<le> W" using W(1) assms(1) by (smt (verit) mult_nonneg_nonneg zero_le_power)
  have "(k + 1) * 2 ^ 52 \<le> (2 ^ 53 :: int) * 2 ^ 52"
    using assms(2) by (intro mult_right_mono) simp_all
  also have "\<dots> < 2 ^ 1076" by simp
  finally have finite: "W < 2 ^ 1076" using W(2) by simp
  have "W div 2 ^ 52 = k"
  proof (rule int_div_pos_eq)
    show "W = 2 ^ 52 * k + (W - k * 2 ^ 52)" by simp
    show "0 \<le> W - k * 2 ^ 52" using W(1) by simp
    show "W - k * 2 ^ 52 < 2 ^ 52" using W(2) by (simp add: algebra_simps)
  qed
  moreover have "\<lfloor>(of_int W :: rat) / 2 ^ 52\<rfloor> = W div 2 ^ 52"
    using floor_divide_of_int_eq [of W "2 ^ 52", where ?'a = rat] by simp
  moreover have "\<not> (of_int W :: rat) / 2 ^ 52 < 0"
    using nonneg by (simp add: not_less)
  ultimately show ?thesis
    using finite nonneg by (simp add: float_product_def and_then_def W_def [symmetric] Let_def)
qed

lemma floor_fifths:
  "\<lfloor>of_int b * (8 / 10 :: rat)\<rfloor> = (4 * b) div 5"
  "\<lfloor>of_int b * (12 / 10 :: rat)\<rfloor> = (6 * b) div 5"
proof -
  have "of_int b * (8 / 10 :: rat) = of_int (4 * b) / of_int 5" by simp
  then show "\<lfloor>of_int b * (8 / 10 :: rat)\<rfloor> = (4 * b) div 5"
    by (simp only: floor_divide_of_int_eq)
  have "of_int b * (12 / 10 :: rat) = of_int (6 * b) / of_int 5" by simp
  then show "\<lfloor>of_int b * (12 / 10 :: rat)\<rfloor> = (6 * b) div 5"
    by (simp only: floor_divide_of_int_eq)
qed

lemma budget_band_positive:
  assumes "0 < b" "b < 2 ^ 49"
  shows "budget_band (VInt b)
    = Inr (\<lfloor>of_int b * (8 / 10 :: rat)\<rfloor>, \<lfloor>of_int b * (12 / 10 :: rat)\<rfloor>)"
proof -
  have conv: "round_53 b = b" using assms by (intro round_53_small) simp_all
  have fits: "\<not> 2 ^ 1024 \<le> \<bar>b\<bar>" using assms by simp
  have k0: "0 \<le> (4 * b) div 5" "0 \<le> (6 * b) div 5" using assms(1) by simp_all
  have k1: "(4 * b) div 5 < 2 ^ 53" "(6 * b) div 5 < 2 ^ 53" using assms by simp_all
  have lo: "and_then (Inr (float_product b float_0_8)) py_int = Inr ((4 * b) div 5)"
    using product_0_8 [OF assms] k0(1) k1(1) by (rule int_of_product [rotated 2])
  have hi: "and_then (Inr (float_product b float_1_2)) py_int = Inr ((6 * b) div 5)"
    using product_1_2 [OF assms] k0(2) k1(2) by (rule int_of_product [rotated 2])
  have "budget_band (VInt b) = Inr ((4 * b) div 5, (6 * b) div 5)"
    using lo hi fits by (simp add: budget_band_def conv and_then_def split: sum.splits)
  then show ?thesis by (simp only: floor_fifths)
qed

lemma budget_band_zero: "budget_band (VInt 0) = Inr (0, 0)"
  by (simp add: budget_band_def and_then_def round_53_def float_product_def
      round_half_even_def Let_def)

text \<open>
  On a profile of the expected types whose budget is absent or from 0 up to \<open>2^49\<close> the
  builder returns filters, with the bounds below.
\<close>

lemma build_filters_typed:
  assumes "typed_profile p"
    and "dict_get (budget_sgd p) (VInt 0) = VInt b" and "0 \<le> b" and "b < 2 ^ 49"
  shows "\<exists>f. build_filters_from_profile p = Inr f
    \<and> min_price f = Some \<lfloor>of_int b * (8 / 10 :: rat)\<rfloor>
    \<and> max_price f = Some \<lfloor>of_int b * (12 / 10 :: rat)\<rfloor>
    \<and> min_year f = Some (fst (year_preference (dict_get (age_preference p) (VStr ''balanced''))))
    \<and> max_year f = Some (snd (year_preference (dict_get (age_preference p) (VStr ''balanced''))))
    \<and> min_mileage f = Some 0
    \<and> max_mileage f = Some (mileage_ceiling (dict_get (mileage_tolerance p) (VStr ''medium'')))"
proof -
  have band: "budget_band (VInt b)
      = Inr (\<lfloor>of_int b * (8 / 10 :: rat)\<rfloor>, \<lfloor>of_int b * (12 / 10 :: rat)\<rfloor>)"
  proof (cases "b = 0")
    case True
    then show ?thesis by (simp add: budget_band_zero)
  next
    case False
    with assms(3) have "0 < b" by simp
    then show ?thesis using assms(4) by (rule budget_band_positive)
  qed
  obtain s where s: "dict_get (brand_bias p) (VStr []) = VStr s"
    using assms(1) by (auto simp: typed_profile_def dict_get_def split: option.splits pyval.splits)
  obtain n where n: "dict_get (family_size p) (VInt 0) = VInt n"
    using assms(1) by (auto simp: typed_profile_def dict_get_def split: option.splits pyval.splits)
  show ?thesis
    by (simp add: build_filters_from_profile_def assms(2) s n band brand_of_bias_def
        family_size_override_def and_then_def)
qed

lemma build_filters_total_on_typed:
  assumes "typed_profile p"
    and "budget_sgd p = None \<or> (\<exists>b. budget_sgd p = Some (VInt b) \<and> 0 \<le> b \<and> b < 2 ^ 49)"
  shows "\<exists>f. build_filters_from_profile p = Inr f"
proof -
  from assms(2) obtain b where "dict_get (budget_sgd p) (VInt 0) = VInt b" "0 \<le> b" "b < 2 ^ 49"
    by (auto simp: dict_get_def)
  from build_filters_typed [OF assms(1) this] show ?thesis by blast
qed

lemma year_preference_ordered: "fst (year_preference v) \<le> snd (year_preference v)"
  by (simp add: year_preference_def)

lemma mileage_ceiling_nonneg: "0 \<le> mileage_ceiling v"
  by (simp add: mileage_ceiling_def)

lemma build_filters_bounds_ordered:
  assumes "typed_profile p"
    and "budget_sgd p = None \<or> (\<exists>b. budget_sgd p = Some (VInt b) \<and> 0 \<le> b \<and> b < 2 ^ 49)"
  shows "\<exists>f lo hi ylo yhi mlo mhi. build_filters_from_profile p = Inr f
    \<and> min_price f = Some lo \<and> max_price f = Some hi \<and> lo \<le> hi
    \<and> min_year f = Some ylo \<and> max_year f = Some yhi \<and> ylo \<le> yhi
    \<and> min_mileage f = Some mlo \<and> max_mileage f = Some mhi \<and> mlo \<le> mhi"
proof -
  from assms(2) obtain b where b: "dict_get (budget_sgd p) (VInt 0) = VInt b" "0 \<le> b" "b < 2 ^ 49"
    by (auto simp: dict_get_def)
  from build_filters_typed [OF assms(1) b] obtain f where
    f: "build_filters_from_profile p = Inr f"
      "min_price f = Some \<lfloor>of_int b * (8 / 10 :: rat)\<rfloor>"
      "max_price f = Some \<lfloor>of_int b * (12 / 10 :: rat)\<rfloor>"
      "min_year f = Some (fst (year_preference (dict_get (age_preference p) (VStr ''balanced''))))"
      "max_year f = Some (snd (year_preference (dict_get (age_preference p) (VStr ''balanced''))))"
      "min_mileage f = Some 0"
      "max_mileage f = Some (mileage_ceiling (dict_get (mileage_tolerance p) (VStr ''medium'')))"
    by blast
  have "(of_int b * (8 / 10) :: rat) \<le> of_int b * (12 / 10)" using b(2) by simp
  then have "\<lfloor>of_int b * (8 / 10 :: rat)\<rfloor> \<le> \<lfloor>of_int b * (12 / 10 :: rat)\<rfloor>"
    by (rule floor_mono)
  with f show ?thesis
    using year_preference_ordered mileage_ceiling_nonneg by blast
qed

text \<open>
  Claim C4, amended. Take a positive integer budget below \<open>2^49\<close>. On every profile with
  that budget whose brand bias, where present, is a string and whose family size, where
  present, is an integer, \<open>build_filters_from_profile\<close> returns filters whose price bounds
  are the products with 0.8 and 1.2 rounded down to an integer (\<^verbatim>\<open>int()\<close> cuts the
  fraction off; the upper bound is not rounded up). \<open>derive_price_band\<close> returns the same
  two bounds for that budget, and leaves both bounds unset when the budget is absent or
  not positive.
\<close>

theorem price_band_truncates:
  assumes "0 < b" and "b < 2 ^ 49"
  shows "derive_price_band (Some b)
           = Inr (Some \<lfloor>of_int b * (8 / 10 :: rat)\<rfloor>, Some \<lfloor>of_int b * (12 / 10 :: rat)\<rfloor>)
    \<and> (typed_profile p \<and> budget_sgd p = Some (VInt b) \<longrightarrow>
         (\<exists>f. build_filters_from_profile p = Inr f
            \<and> min_price f = Some \<lfloor>of_int b * (8 / 10 :: rat)\<rfloor>
            \<and> max_price f = Some \<lfloor>of_int b * (12 / 10 :: rat)\<rfloor>))
    \<and> derive_price_band None = Inr (None, None)
    \<and> (c \<le> 0 \<longrightarrow> derive_price_band (Some c) = Inr (None, None))"
proof -
  have helper: "derive_price_band (Some b)
           = Inr (Some \<lfloor>of_int b * (8 / 10 :: rat)\<rfloor>, Some \<lfloor>of_int b * (12 / 10 :: rat)\<rfloor>)"
    using assms budget_band_positive [OF assms] by (simp add: derive_price_band_def and_then_def)
  have builder: "\<exists>f. build_filters_from_profile p = Inr f
            \<and> min_price f = Some \<lfloor>of_int b * (8 / 10 :: rat)\<rfloor>
            \<and> max_price f = Some \<lfloor>of_int b * (12 / 10 :: rat)\<rfloor>"
    if "typed_profile p" "budget_sgd p = Some (VInt b)"
  proof -
    have "dict_get (budget_sgd p) (VInt 0) = VInt b" using that(2) by (simp add: dict_get_def)
    from build_filters_typed [OF that(1) this] assms show ?thesis by auto
  qed
  have unset: "derive_price_band None = Inr (None, None)"
    "c \<le> 0 \<longrightarrow> derive_price_band (Some c) = Inr (None, None)"
    by (simp_all add: derive_price_band_def)
  from helper builder unset show ?thesis by blast
qed

theorem price_band_truncates_witness:
  "(0::int) < 100000 \<and> (100000::int) < 2 ^ 49
   \<and> typed_profile suv_profile \<and> budget_sgd suv_profile = Some (VInt 100000)
   \<and> build_filters_from_profile suv_profile = Inr suv_filters
   \<and> min_price suv_filters = Some \<lfloor>of_int 100000 * (8 / 10 :: rat)\<rfloor>
   \<and> max_price suv_filters = Some \<lfloor>of_int 100000 * (12 / 10 :: rat)\<rfloor>
   \<and> derive_price_band (Some 100000)
        = Inr (Some \<lfloor>of_int 100000 * (8 / 10 :: rat)\<rfloor>, Some \<lfloor>of_int 100000 * (12 / 10 :: rat)\<rfloor>)
   \<and> (- 5 :: int) \<le> 0 \<and> derive_price_band (Some (- 5)) = Inr (None, None)"
proof -
  have typed: "typed_profile suv_profile" and budget: "budget_sgd suv_profile = Some (VInt 100000)"
    by (simp_all add: typed_profile_def suv_profile_def empty_profile_def)
  have built: "build_filters_from_profile suv_profile = Inr suv_filters"
    by code_simp
  have range: "(0::int) < 100000" "(100000::int) < 2 ^ 49" by simp_all
  note band = price_band_truncates [OF range, of suv_profile "- 5"]
  from band typed budget built
  have "min_price suv_filters = Some \<lfloor>of_int 100000 * (8 / 10 :: rat)\<rfloor>
      \<and> max_price suv_filters = Some \<lfloor>of_int 100000 * (12 / 10 :: rat)\<rfloor>"
    by auto
  with band typed budget built range show ?thesis by simp
qed

text \<open>
  Claim C4 as stated fails: for the budget 100001 the upper bound is 120001, the product
  120001.2 cut to an integer, and not its ceiling 120002.
\<close>

theorem price_band_ceiling_counterexample:
  "build_filters_from_profile (empty_profile\<lparr>budget_sgd := Some (VInt 100001)\<rparr>)
     = Inr \<lparr>brand = Some [], min_price = Some 80000, max_price = Some 120001,
            min_year = Some 2015, max_year = Some 2025, min_mileage = Some 0,
            max_mileage = Some 120000, max_owners = Some 3, engine_cc_category = None,
            body_type_code = None, min_depreciation = None, max_depreciation = None\<rparr>
   \<and> derive_price_band (Some 100001) = Inr (Some 80000, Some 120001)
   \<and> \<lceil>of_int 100001 * (12 / 10 :: rat)\<rceil> = (120002 :: int)"
  by code_simp

text \<open>
  Beyond \<open>2^49\<close> the doubles are too coarse for the bounds to be the exact products cut to
  an integer: the budget 1901503873489561 gives the lower bound 1521203098791649, one
  above the floor of the exact product.
\<close>

lemma budget_band_rounds:
  "budget_band (VInt 1901503873489561) = Inr (1521203098791649, 2281804648187473)
   \<and> \<lfloor>of_int 1901503873489561 * (8 / 10 :: rat)\<rfloor> = (1521203098791648 :: int)"
  by code_simp

text \<open>
  Claim C5 fails on the code for a negative budget: \<^verbatim>\<open>int()\<close> rounds both products towards
  zero and nothing guards the sign, so the budget -10 gives \<open>min_price = -8\<close> above
  \<open>max_price = -12\<close>. The other price band of the module, \<open>derive_price_band\<close>, leaves both
  bounds unset there.
\<close>

theorem negative_budget_inverts_price_band:
  "build_filters_from_profile (empty_profile\<lparr>budget_sgd := Some (VInt (- 10))\<rparr>)
     = Inr \<lparr>brand = Some [], min_price = Some (- 8), max_price = Some (- 12),
            min_year = Some 2015, max_year = Some 2025, min_mileage = Some 0,
            max_mileage = Some 120000, max_owners = Some 3, engine_cc_category = None,
            body_type_code = None, min_depreciation = None, max_depreciation = None\<rparr>
   \<and> derive_price_band (Some (- 10)) = Inr (None, None)"
  by code_simp

text \<open>
  Claim C9 fails on the code for a field that is present and holds \<^verbatim>\<open>None\<close>: the brand bias
  is lower-cased without a test, the budget is multiplied and the family size is compared
  likewise.
\<close>

theorem none_valued_field_raises:
  "build_filters_from_profile (empty_profile\<lparr>brand_bias := Some VNone\<rparr>) = Inl AttributeError
   \<and> build_filters_from_profile (empty_profile\<lparr>budget_sgd := Some VNone\<rparr>) = Inl TypeError
   \<and> build_filters_from_profile (empty_profile\<lparr>family_size := Some VNone\<rparr>) = Inl TypeError"
  by code_simp

section \<open>Properties of the value scoring engine\<close>


lemma known_empty_iff: "list_all (\<lambda>v. v = None) s = (known s = [])"
  by (induction s rule: known.induct) auto

lemma degenerate_iff:
  "degenerate s = (known s = [] \<or> Max (set (known s)) = Min (set (known s)))"
proof (cases "known s = []")
  case True
  then show ?thesis by (simp add: degenerate_def)
next
  case False
  then have ne: "set (known s) \<noteq> {}" by simp
  have fin: "finite (set (known s))" by simp
  show ?thesis
  proof
    assume "degenerate s"
    then have all_eq: "\<forall>a \<in> set (known s). \<forall>b \<in> set (known s). a = b"
      by (simp add: degenerate_def list_all_iff)
    have "Max (set (known s)) \<in> set (known s)" "Min (set (known s)) \<in> set (known s)"
      using ne fin by (auto intro: Max_in Min_in)
    with all_eq have "Max (set (known s)) = Min (set (known s))" by blast
    then show "known s = [] \<or> Max (set (known s)) = Min (set (known s))" by simp
  next
    assume "known s = [] \<or> Max (set (known s)) = Min (set (known s))"
    with False have eq: "Max (set (known s)) = Min (set (known s))" by simp
    have "a = Min (set (known s))" if "a \<in> set (known s)" for a
      using Min_le [OF fin that] Max_ge [OF fin that] eq by simp
    then show "degenerate s"
      by (auto simp: degenerate_def list_all_iff)
  qed
qed

lemma normalize_nth:
  assumes "i < length series"
  shows "normalize series True ! i
           = lower_is_better (map replace_inf series) (replace_inf (series ! i))"
    and "normalize series False ! i
           = higher_is_better (map replace_inf series) (replace_inf (series ! i))"
  using assms
  by (auto simp: normalize_def Let_def lower_is_better_def higher_is_better_def min_max_norm_def
      degenerate_iff known_empty_iff option.map_comp comp_def)

lemma normalize_length: "length (normalize series reverse) = length series"
  by (simp add: normalize_def Let_def)

lemma compute_length: "length (compute_value_scores df) = length df"
  by (simp add: compute_value_scores_def Let_def)

lemma weighted_sum_eq_composite:
  "scale 100
     (plus_nan (plus_nan (plus_nan (scale (40 / 100) p) (scale (25 / 100) m)) (scale (20 / 100) d))
        (scale (15 / 100) y))
   = composite p m d y"
  by (cases p; cases m; cases d; cases y)
    (simp_all add: scale_def weight_price_def weight_mileage_def weight_depreciation_def
      weight_year_def)

lemma weighted_sum_normal_form:
  "scale 100
     (plus_nan (plus_nan (plus_nan (scale (2 / 5) p) (scale (1 / 4) m)) (scale (1 / 5) d))
        (scale (3 / 20) y))
   = composite p m d y"
  using weighted_sum_eq_composite [of p m d y] by simp

lemma column_eq: "map replace_inf (map (\<lambda>r. to_numeric (c r)) df) = column c df"
  by (simp add: column_def numeric_def)

lemma compute_components:
  assumes "i < length df"
  shows "value_price (compute_value_scores df ! i)
           = lower_is_better (column price_cell df) (numeric (price_cell (df ! i)))"
    and "value_mileage (compute_value_scores df ! i)
           = lower_is_better (column mileage_cell df) (numeric (mileage_cell (df ! i)))"
    and "value_depreciation (compute_value_scores df ! i)
           = lower_is_better (column depreciation_cell df) (numeric (depreciation_cell (df ! i)))"
    and "value_year (compute_value_scores df ! i)
           = higher_is_better (column year_cell df) (numeric (year_cell (df ! i)))"
  using assms
  by (simp_all add: compute_value_scores_def Let_def normalize_nth column_eq numeric_def
      del: map_map)

lemma compute_score:
  assumes "i < length df"
  shows "value_score (compute_value_scores df ! i) = spec_score df (df ! i)"
  using assms
  by (simp add: compute_value_scores_def Let_def weighted_sum_normal_form spec_score_def
      normalize_nth column_eq numeric_def del: map_map)

lemma compute_rank:
  assumes "i < length df"
  shows "value_rank (compute_value_scores df ! i)
    = map_option (\<lambda>x. Suc (length (remdups (filter (\<lambda>y. x < y)
          (known (map value_score (compute_value_scores df)))))))
        (value_score (compute_value_scores df ! i))"
proof -
  have scores: "map value_score (compute_value_scores df)
      = map (\<lambda>i. scale 100
                (plus_nan
                  (plus_nan
                    (plus_nan (scale (40 / 100) (normalize (map (\<lambda>r. to_numeric (price_cell r)) df) True ! i))
                       (scale (25 / 100) (normalize (map (\<lambda>r. to_numeric (mileage_cell r)) df) True ! i)))
                    (scale (20 / 100) (normalize (map (\<lambda>r. to_numeric (depreciation_cell r)) df) True ! i)))
                  (scale (15 / 100) (normalize (map (\<lambda>r. to_numeric (year_cell r)) df) False ! i)))) [0..<length df]"
    by (simp add: compute_value_scores_def Let_def comp_def)
  show ?thesis
    using assms unfolding scores
    by (simp add: compute_value_scores_def Let_def dense_rank_def)
qed

text \<open>
  Claim C2. For every batch, the composite value score of each listing is 100 times the
  weighted sum of its four components with the weights 0.40, 0.25, 0.20 and 0.15, which
  add up to 1; the price, mileage and depreciation components are the inverted min-max
  normalizations over the batch and the year component is the normalization as it is. An
  unknown value in a column that is not degenerate has an unknown normalization, and a
  score with an unknown component is unknown.
\<close>

theorem value_score_formula:
  "map value_score (compute_value_scores df) = map (spec_score df) df
   \<and> map value_price (compute_value_scores df)
       = map (\<lambda>r. lower_is_better (column price_cell df) (numeric (price_cell r))) df
   \<and> map value_mileage (compute_value_scores df)
       = map (\<lambda>r. lower_is_better (column mileage_cell df) (numeric (mileage_cell r))) df
   \<and> map value_depreciation (compute_value_scores df)
       = map (\<lambda>r. lower_is_better (column depreciation_cell df) (numeric (depreciation_cell r))) df
   \<and> map value_year (compute_value_scores df)
       = map (\<lambda>r. higher_is_better (column year_cell df) (numeric (year_cell r))) df
   \<and> weight_price + weight_mileage + weight_depreciation + weight_year = 1"
proof -
  have "map value_score (compute_value_scores df) = map (spec_score df) df"
    by (rule nth_equalityI) (simp_all add: compute_length compute_score)
  moreover have "map value_price (compute_value_scores df)
       = map (\<lambda>r. lower_is_better (column price_cell df) (numeric (price_cell r))) df"
    by (rule nth_equalityI) (simp_all add: compute_length compute_components)
  moreover have "map value_mileage (compute_value_scores df)
       = map (\<lambda>r. lower_is_better (column mileage_cell df) (numeric (mileage_cell r))) df"
    by (rule nth_equalityI) (simp_all add: compute_length compute_components)
  moreover have "map value_depreciation (compute_value_scores df)
       = map (\<lambda>r. lower_is_better (column depreciation_cell df) (numeric (depreciation_cell r))) df"
    by (rule nth_equalityI) (simp_all add: compute_length compute_components)
  moreover have "map value_year (compute_value_scores df)
       = map (\<lambda>r. higher_is_better (column year_cell df) (numeric (year_cell r))) df"
    by (rule nth_equalityI) (simp_all add: compute_length compute_components)
  moreover have "weight_price + weight_mileage + weight_depreciation + weight_year = 1"
    by (simp add: weight_price_def weight_mileage_def weight_depreciation_def weight_year_def)
  ultimately show ?thesis by blast
qed


lemma composite_none:
  "p = None \<or> m = None \<or> d = None \<or> y = None \<Longrightarrow> composite p m d y = None"
  by (cases p; cases m; cases d; cases y) auto

lemma score_none_of_component:
  assumes "i < length df" "component_of a (compute_value_scores df ! i) = None"
  shows "value_score (compute_value_scores df ! i) = None"
proof -
  have "value_score (compute_value_scores df ! i)
      = composite (value_price (compute_value_scores df ! i))
          (value_mileage (compute_value_scores df ! i))
          (value_depreciation (compute_value_scores df ! i))
          (value_year (compute_value_scores df ! i))"
    using assms(1) by (simp add: compute_score spec_score_def compute_components)
  moreover have "value_price (compute_value_scores df ! i) = None
      \<or> value_mileage (compute_value_scores df ! i) = None
      \<or> value_depreciation (compute_value_scores df ! i) = None
      \<or> value_year (compute_value_scores df ! i) = None"
    using assms(2) by (cases a) simp_all
  ultimately show ?thesis by (simp add: composite_none)
qed

text \<open>
  Claim C3, amended. A price, mileage, depreciation or year that is missing or not numeric
  becomes unknown, not zero, and the row stays in the output. Its component for that
  attribute is the neutral 0.5 when the column is degenerate in the batch (no known value,
  or all known values equal); otherwise the component is unknown, and so are the row's
  composite score and its rank.
\<close>

theorem unknown_attribute_scoring:
  assumes "i < length df" and "numeric (cell_of a (df ! i)) = None"
  shows "numeric NonNumeric = None \<and> numeric Missing = None
    \<and> length (compute_value_scores df) = length df
    \<and> (degenerate (column (cell_of a) df)
         \<longrightarrow> component_of a (compute_value_scores df ! i) = Some (1 / 2))
    \<and> (\<not> degenerate (column (cell_of a) df)
         \<longrightarrow> component_of a (compute_value_scores df ! i) = None
           \<and> value_score (compute_value_scores df ! i) = None
           \<and> value_rank (compute_value_scores df ! i) = None)"
proof -
  have unknown: "numeric NonNumeric = None" "numeric Missing = None"
    by (simp_all add: numeric_def)
  have neutral: "component_of a (compute_value_scores df ! i) = Some (1 / 2)"
    if "degenerate (column (cell_of a) df)"
    using that assms(1)
    by (cases a)
      (simp_all add: compute_components lower_is_better_def higher_is_better_def min_max_norm_def)
  have lost: "component_of a (compute_value_scores df ! i) = None
           \<and> value_score (compute_value_scores df ! i) = None
           \<and> value_rank (compute_value_scores df ! i) = None"
    if "\<not> degenerate (column (cell_of a) df)"
  proof -
    have c: "component_of a (compute_value_scores df ! i) = None"
      using that assms
      by (cases a)
        (simp_all add: compute_components lower_is_better_def higher_is_better_def min_max_norm_def)
    then have s: "value_score (compute_value_scores df ! i) = None"
      using assms(1) by (rule score_none_of_component [rotated])
    then have "value_rank (compute_value_scores df ! i) = None"
      using assms(1) by (simp add: compute_rank)
    with c s show ?thesis by simp
  qed
  from unknown compute_length neutral lost show ?thesis by blast
qed

theorem unknown_attribute_scoring_witness:
  "(0::nat) < length batch_unknown_price
   \<and> numeric (cell_of Price (batch_unknown_price ! 0)) = None
   \<and> \<not> degenerate (column (cell_of Price) batch_unknown_price)
   \<and> component_of Price (compute_value_scores batch_unknown_price ! 0) = None
   \<and> value_score (compute_value_scores batch_unknown_price ! 0) = None
   \<and> value_rank (compute_value_scores batch_unknown_price ! 0) = None
   \<and> numeric (cell_of Depreciation (batch_unknown_price ! 0)) = None
   \<and> degenerate (column (cell_of Depreciation) batch_unknown_price)
   \<and> component_of Depreciation (compute_value_scores batch_unknown_price ! 0) = Some (1 / 2)"
proof -
  have len: "0 < length batch_unknown_price"
    by (simp add: batch_unknown_price_def)
  have price: "numeric (cell_of Price (batch_unknown_price ! 0)) = None"
    and dep: "numeric (cell_of Depreciation (batch_unknown_price ! 0)) = None"
    by (simp_all add: batch_unknown_price_def car_def numeric_def)
  have spread: "\<not> degenerate (column (cell_of Price) batch_unknown_price)"
    by (simp add: degenerate_def column_def batch_unknown_price_def car_def num_def numeric_def)
  have flat: "degenerate (column (cell_of Depreciation) batch_unknown_price)"
    by (simp add: degenerate_def column_def batch_unknown_price_def car_def num_def numeric_def)
  from unknown_attribute_scoring [OF len price] spread
  have lost: "component_of Price (compute_value_scores batch_unknown_price ! 0) = None
      \<and> value_score (compute_value_scores batch_unknown_price ! 0) = None
      \<and> value_rank (compute_value_scores batch_unknown_price ! 0) = None"
    by blast
  from unknown_attribute_scoring [OF len dep] flat
  have neutral: "component_of Depreciation (compute_value_scores batch_unknown_price ! 0) = Some (1 / 2)"
    by blast
  from len price spread lost dep flat neutral show ?thesis by blast
qed

text \<open>
  Claim C3 as stated fails: in a batch of three listings whose first has a non-numeric
  price while the other two prices differ, the first listing gets no price component, no
  composite score and no rank.
\<close>

theorem unknown_price_counterexample:
  "map value_price (compute_value_scores batch_unknown_price) = [None, Some 1, Some 0]
   \<and> map value_score (compute_value_scores batch_unknown_price) = [None, Some 50, Some 50]
   \<and> map value_rank (compute_value_scores batch_unknown_price) = [None, Some 1, Some 1]"
  by code_simp












end
